theory Spec2Isabelle
  imports Main
begin

section \<open>Python strings\<close>

text \<open>
  A Python \<open>str\<close> is a sequence of Unicode code points. Outgoing text (prompts, backend
  answers, the fixed messages with their pictographs) is modelled as the list of its code
  points, \<open>str\<close>. The text of an inbound chat item is the only text the agent trims and
  lower-cases; it is modelled as a \<open>string\<close>, whose 8-bit characters are the code points
  0 to 255 (Latin-1). On that range \<open>str.lower\<close> maps character by character and
  \<open>str.strip\<close> removes the twelve white-space code points listed in \<open>isspace\<close>.
\<close>

type_synonym str = "nat list"

definition codes :: "string \<Rightarrow> str" where
  "codes s = map of_char s"

definition isspace :: "char \<Rightarrow> bool" where
  "isspace c = (let n = (of_char c :: nat) in
     (9 \<le> n \<and> n \<le> 13) \<or> (28 \<le> n \<and> n \<le> 32) \<or> n = 133 \<or> n = 160)"

definition lower_char :: "char \<Rightarrow> char" where
  "lower_char c = (let n = (of_char c :: nat) in
     if (65 \<le> n \<and> n \<le> 90) \<or> (192 \<le> n \<and> n \<le> 222 \<and> n \<noteq> 215)
     then char_of (n + 32) else c)"

definition lower :: "string \<Rightarrow> string" where
  "lower s = map lower_char s"

definition strip :: "string \<Rightarrow> string" where
  "strip s = rev (dropWhile isspace (rev (dropWhile isspace s)))"

definition startswith :: "'a list \<Rightarrow> 'a list \<Rightarrow> bool" where
  "startswith s p = (take (length p) s = p)"

text \<open>
  \<open>s.replace(old, new)\<close>: the occurrences of \<open>old\<close> are found from the left and do not
  overlap; with an empty \<open>old\<close>, \<open>new\<close> is put before every character and at the end.
\<close>

fun replace :: "'a list \<Rightarrow> 'a list \<Rightarrow> 'a list \<Rightarrow> 'a list" where
  "replace [] old new = (if old = [] then new else [])"
| "replace (c # cs) old new =
     (if old = [] then new @ c # replace cs old new
      else if startswith (c # cs) old then new @ replace (drop (length old) (c # cs)) old new
      else c # replace cs old new)"

text \<open>\<open>sub in s\<close>.\<close>

fun contains :: "'a list \<Rightarrow> 'a list \<Rightarrow> bool" where
  "contains [] sub = (sub = [])"
| "contains (c # cs) sub = (startswith (c # cs) sub \<or> contains cs sub)"

section \<open>The command parser\<close>

text \<open>
  \<open>parse_chat_command\<close> returns a pair: the command type, and the content, which is
  \<open>None\<close> for \<open>help\<close>.
\<close>

definition parse_chat_command :: "string \<Rightarrow> string \<times> string option" where
  "parse_chat_command item_text =
     (let t = lower (strip item_text) in
      if startswith t ''/curriculum '' then
        (''curriculum'', Some (strip (replace t ''/curriculum '' '''')))
      else if startswith t ''/socratic '' then
        (''socratic'', Some (strip (replace t ''/socratic '' '''')))
      else if startswith t ''/quiz '' then
        (''quiz'', Some (strip (replace t ''/quiz '' '''')))
      else if startswith t ''/project '' then
        (''project'', Some (strip (replace t ''/project '' '''')))
      else if startswith t ''/help'' then (''help'', None)
      else (''general'', Some t))"

text \<open>
  The four prefixes that carry an argument, each with the command type its branch returns.
\<close>

definition command_prefixes :: "(string \<times> string) list" where
  "command_prefixes =
     [(''/curriculum '', ''curriculum''), (''/socratic '', ''socratic''),
      (''/quiz '', ''quiz''), (''/project '', ''project'')]"

section \<open>Prompts and fixed messages\<close>

text \<open>
  The f-strings and literals of the source, line by line; 10 is the line feed, 34 the
  double quote, 39 the apostrophe, and the numbers above 255 are the pictographs.
\<close>

definition curriculum_prompt :: "str \<Rightarrow> str" where
  "curriculum_prompt topic = concat
     [[10],
      codes ''    Create a practical learning roadmap for '', [34], topic, [34],
      codes ''. Provide:'', [10],
      codes ''    '', [10],
      codes ''    WEEK 1: Foundation'', [10],
      codes ''    - Core concepts to learn'', [10],
      codes ''    - 2-3 hands-on exercises'', [10],
      codes ''    - Recommended resources'', [10],
      codes ''    '', [10],
      codes ''    WEEK 2: Building Skills  '', [10],
      codes ''    - Key skills to develop'', [10],
      codes ''    - Practice projects'', [10],
      codes ''    - Resources'', [10],
      codes ''    '', [10],
      codes ''    WEEK 3: Application'', [10],
      codes ''    - Real-world applications'', [10],
      codes ''    - Intermediate projects'', [10],
      codes ''    - Advanced resources'', [10],
      codes ''    '', [10],
      codes ''    WEEK 4: Mastery'', [10],
      codes ''    - Advanced topics'', [10],
      codes ''    - Capstone project ideas'', [10],
      codes ''    - Next steps'', [10],
      codes ''    '', [10],
      codes ''    Be specific and actionable. Include actual resource names, '',
      codes ''websites, or tools when possible.'', [10],
      codes ''    Format as clean text without HTML or markdown.'', [10],
      codes ''    '']"

definition socratic_prompt :: "str \<Rightarrow> str" where
  "socratic_prompt concept = concat
     [[10],
      codes ''    You are a Socratic tutor helping a student understand '', [34], concept, [34],
      codes ''.'', [10],
      codes ''    Create 6 progressive guiding questions that:'', [10],
      codes ''    1. Start with basic understanding'', [10],
      codes ''    2. Build complexity gradually'', [10],
      codes ''    3. Encourage critical thinking'', [10],
      codes ''    4. Connect to real-world applications'', [10],
      codes ''    '', [10],
      codes ''    Return as a numbered list, one question per line.'', [10],
      codes ''    '']"

definition quiz_prompt :: "str \<Rightarrow> str" where
  "quiz_prompt topic = concat
     [[10],
      codes ''    Act as a quiz creator. Generate atleast 5 multiple-choice '',
      codes ''questions on '', [34], topic, [34], codes ''.'', [10],
      codes ''    Format each question as:'', [10],
      codes ''    '', [10],
      codes ''    Question X: [Question text]'', [10],
      codes ''    A) [Option A]'', [10],
      codes ''    B) [Option B]  '', [10],
      codes ''    C) [Option C]'', [10],
      codes ''    D) [Option D]'', [10],
      codes ''    Answer: [Correct letter]'', [10],
      codes ''    '', [10],
      codes ''    Include brief explanations for the correct answers.'', [10],
      codes ''    '']"

definition project_prompt :: "str \<Rightarrow> str" where
  "project_prompt topic = concat
     [[10],
      codes ''    Act as a mentor. Suggest a beginner-friendly project for '', [34], topic, [34],
      codes ''.'', [10],
      codes ''    Include:'', [10],
      codes ''    - Project overview'', [10],
      codes ''    - Learning objectives'', [10],
      codes ''    - Step-by-step breakdown'', [10],
      codes ''    - Required resources'', [10],
      codes ''    - Expected timeline'', [10],
      codes ''    '', [10],
      codes ''    Keep it practical and achievable.'', [10],
      codes ''    '']"

definition general_prompt :: "str \<Rightarrow> str" where
  "general_prompt item_text = concat
     [[10],
      codes ''                You are a helpful AI tutor. The student said: '', [34], item_text, [34, 10],
      codes ''                '', [10],
      codes ''                IMPORTANT: Provide direct, actionable help. Don'', [39],
      codes ''t ask multiple questions back.'', [10],
      codes ''                '', [10],
      codes ''                If they want to learn something:'', [10],
      codes ''                - Give them a clear, practical roadmap or '',
      codes ''explanation'', [10],
      codes ''                - Provide specific steps they can take'', [10],
      codes ''                - Include resources or next actions'', [10],
      codes ''                '', [10],
      codes ''                If they ask about a concept:'', [10],
      codes ''                - Explain it clearly with examples'', [10],
      codes ''                - Make it practical and applicable'', [10],
      codes ''                '', [10],
      codes ''                If they want a roadmap for a topic:'', [10],
      codes ''                - Create a structured learning path'', [10],
      codes ''                - Include timeframes and milestones'', [10],
      codes ''                - Suggest specific resources'', [10],
      codes ''                '', [10],
      codes ''                Keep your response direct, practical, and '',
      codes ''immediately useful. Avoid asking multiple clarifying questions '',
      codes ''- instead, provide the most commonly needed information for '',
      codes ''their request.'', [10],
      codes ''                '']"

definition get_help_text :: str where
  "get_help_text = concat
     [[10],
      [127891], codes '' Welcome to your AI Tutor! Here are the available commands:'', [10],
      [10],
      [128218], codes '' /curriculum [topic] - Get a 4-week learning curriculum'', [10],
      [10067], codes '' /socratic [concept] - Get Socratic questioning for deeper '',
      codes ''understanding  '', [10],
      [128221], codes '' /quiz [topic] - Generate practice quiz questions'', [10],
      [128736, 65039], codes '' /project [topic] - Get project suggestions and guidance'', [10],
      [10067], codes '' /help - Show this help message'', [10],
      [10],
      codes ''You can also just chat naturally and I'', [39],
      codes ''ll do my best to help with your learning!'', [10],
      [10],
      codes ''Example: '', [34], codes ''/curriculum machine learning'', [34],
      codes '' or '', [34], codes ''/quiz python basics'', [34, 10],
      codes ''    '']"

definition welcome_msg :: str where
  "welcome_msg = concat
     [[127891],
      codes '' Welcome to your AI Tutor! Type /help to see available commands '',
      codes ''or just start asking questions!'']"

definition farewell_msg :: str where
  "farewell_msg = concat
     [[128075], codes '' Thanks for learning with me today! Feel free to start a new '',
      codes ''session anytime you need help.'']"

definition apology :: str where
  "apology = concat
     [codes ''I'', [39],
      codes ''m having trouble processing that right now. Try using one of '',
      codes ''the specific commands like /help to see what I can do!'']"

section \<open>The backend and the generators\<close>

text \<open>
  \<open>model.generate_content(prompt)\<close> followed by \<open>resp.text\<close> either gives a text or
  raises; the exception is kept with its message \<open>str(e)\<close>. Only exceptions of class
  \<open>Exception\<close>, the ones \<open>except Exception\<close> catches, are modelled; signals of the
  interpreter such as \<open>KeyboardInterrupt\<close> are not. The backend is not a function
  of the prompt alone, so the model also gives it the number of calls made before.
  The world records what the handler has done: the messages passed to \<open>ctx.send\<close> and the
  prompts passed to the backend, oldest first. The time stamp and the fresh identifier of
  an outgoing message come from the clock and the random generator and are left out, as
  are the log lines.

  A content item is a session start, a text, a session end, or anything else
  (\<open>OtherContent\<close>, the last branch of the \<open>isinstance\<close> chain). The items of an inbound
  message carry a \<open>string\<close>, those of an outgoing one a \<open>str\<close>.
\<close>

datatype exn = Exception str

type_synonym backend = "nat \<Rightarrow> str \<Rightarrow> exn + str"

datatype 't content = StartSessionContent | TextContent 't | EndSessionContent | OtherContent

datatype outbound = ChatAcknowledgement nat | ChatMessage "str content list"

record world =
  sent :: "outbound list"
  prompts :: "str list"

record inbound =
  msg_id :: nat
  content :: "string content list"

definition generate_content :: "backend \<Rightarrow> str \<Rightarrow> world \<Rightarrow> (exn + str) \<times> world" where
  "generate_content gen prompt w =
     (gen (length (prompts w)) prompt, w\<lparr>prompts := prompts w @ [prompt]\<rparr>)"

definition generate_curriculum :: "backend \<Rightarrow> str \<Rightarrow> world \<Rightarrow> (exn + str) \<times> world" where
  "generate_curriculum gen topic w =
     (case generate_content gen (curriculum_prompt topic) w of
        (Inr resp, w') \<Rightarrow> (Inr resp, w')
      | (Inl (Exception e), w') \<Rightarrow> (Inr (codes ''Error generating curriculum: '' @ e), w'))"

definition generate_socratic_questions ::
    "backend \<Rightarrow> str \<Rightarrow> world \<Rightarrow> (exn + str) \<times> world" where
  "generate_socratic_questions gen concept w =
     (case generate_content gen (socratic_prompt concept) w of
        (Inr resp, w') \<Rightarrow> (Inr resp, w')
      | (Inl (Exception e), w') \<Rightarrow>
          (Inr (codes ''Error generating Socratic questions: '' @ e), w'))"

definition generate_quiz :: "backend \<Rightarrow> str \<Rightarrow> world \<Rightarrow> (exn + str) \<times> world" where
  "generate_quiz gen topic w =
     (case generate_content gen (quiz_prompt topic) w of
        (Inr resp, w') \<Rightarrow> (Inr resp, w')
      | (Inl (Exception e), w') \<Rightarrow> (Inr (codes ''Error generating quiz: '' @ e), w'))"

definition generate_project :: "backend \<Rightarrow> str \<Rightarrow> world \<Rightarrow> (exn + str) \<times> world" where
  "generate_project gen topic w =
     (case generate_content gen (project_prompt topic) w of
        (Inr resp, w') \<Rightarrow> (Inr resp, w')
      | (Inl (Exception e), w') \<Rightarrow> (Inr (codes ''Error generating project: '' @ e), w'))"

section \<open>The chat handler\<close>

text \<open>
  The truth value of \<open>content\<close> in \<open>command_type == ... and content\<close>: \<open>None\<close> and the
  empty string are false. \<open>py_str\<close> is the text an f-string puts for the value.
\<close>

fun truthy :: "string option \<Rightarrow> bool" where
  "truthy None = False"
| "truthy (Some s) = (s \<noteq> [])"

fun py_str :: "string option \<Rightarrow> str" where
  "py_str None = codes ''None''"
| "py_str (Some s) = codes s"

text \<open>
  The branch of \<open>handle_message\<close> for a text item computes \<open>response_text\<close>: it parses
  \<open>item.text\<close> and dispatches on the pair (\<open>respond\<close>). The last branch of the dispatch
  (\<open>general_reply\<close>) builds its prompt from \<open>item.text\<close> itself, not from the parsed
  content, and answers a failure of the backend with the fixed apology.
\<close>

definition general_reply :: "backend \<Rightarrow> string \<Rightarrow> world \<Rightarrow> (exn + str) \<times> world" where
  "general_reply gen item_text w =
     (case generate_content gen (general_prompt (codes item_text)) w of
        (Inr resp, w') \<Rightarrow> (Inr resp, w')
      | (Inl e, w') \<Rightarrow> (Inr apology, w'))"

definition respond ::
    "backend \<Rightarrow> string \<Rightarrow> string \<times> string option \<Rightarrow> world \<Rightarrow> (exn + str) \<times> world" where
  "respond gen item_text parsed w =
     (let (command_type, content) = parsed in
      if command_type = ''curriculum'' \<and> truthy content then
        generate_curriculum gen (py_str content) w
      else if command_type = ''socratic'' \<and> truthy content then
        generate_socratic_questions gen (py_str content) w
      else if command_type = ''quiz'' \<and> truthy content then
        generate_quiz gen (py_str content) w
      else if command_type = ''project'' \<and> truthy content then
        generate_project gen (py_str content) w
      else if command_type = ''help'' then (Inr get_help_text, w)
      else general_reply gen item_text w)"

definition response_text :: "backend \<Rightarrow> string \<Rightarrow> world \<Rightarrow> (exn + str) \<times> world" where
  "response_text gen item_text w = respond gen item_text (parse_chat_command item_text) w"

definition create_text_chat :: "str \<Rightarrow> bool \<Rightarrow> outbound" where
  "create_text_chat t end_session =
     ChatMessage ([TextContent t] @ (if end_session then [EndSessionContent] else []))"

definition send :: "outbound \<Rightarrow> world \<Rightarrow> world" where
  "send m w = w\<lparr>sent := sent w @ [m]\<rparr>"

text \<open>
  One item of \<open>msg.content\<close>. The first component is the exception that leaves the
  handler, if any; the loop stops there.
\<close>

fun handle_item :: "backend \<Rightarrow> string content \<Rightarrow> world \<Rightarrow> exn option \<times> world" where
  "handle_item gen StartSessionContent w = (None, send (create_text_chat welcome_msg False) w)"
| "handle_item gen (TextContent item_text) w =
     (case response_text gen item_text w of
        (Inr r, w') \<Rightarrow> (None, send (create_text_chat r False) w')
      | (Inl e, w') \<Rightarrow> (Some e, w'))"
| "handle_item gen EndSessionContent w = (None, send (create_text_chat farewell_msg True) w)"
| "handle_item gen OtherContent w = (None, w)"

fun handle_items :: "backend \<Rightarrow> string content list \<Rightarrow> world \<Rightarrow> exn option \<times> world" where
  "handle_items gen [] w = (None, w)"
| "handle_items gen (item # items) w =
     (case handle_item gen item w of
        (None, w') \<Rightarrow> handle_items gen items w'
      | (Some e, w') \<Rightarrow> (Some e, w'))"

definition handle_message :: "backend \<Rightarrow> inbound \<Rightarrow> world \<Rightarrow> exn option \<times> world" where
  "handle_message gen msg w =
     handle_items gen (content msg) (send (ChatAcknowledgement (msg_id msg)) w)"

section \<open>Facts about the string operations\<close>

lemma startswith_append_same [simp]: "startswith (p @ s) p"
  by (simp add: startswith_def)

lemma isspace_lower_char [simp]: "isspace (lower_char c) = isspace c"
  unfolding isspace_def lower_char_def Let_def by (auto simp: of_char_of)

lemma lower_append [simp]: "lower (a @ b) = lower a @ lower b"
  by (simp add: lower_def)

lemma dropWhile_isspace_lower: "dropWhile isspace (lower s) = lower (dropWhile isspace s)"
  by (induction s) (auto simp: lower_def)

lemma strip_lower: "strip (lower s) = lower (strip s)"
  by (simp add: strip_def dropWhile_isspace_lower lower_def rev_map dropWhile_map comp_def)

lemma startswith_Nil [simp]: "startswith s []"
  by (simp add: startswith_def)

lemma startswith_Cons:
  "startswith s (c # p) = (case s of [] \<Rightarrow> False | d # s' \<Rightarrow> d = c \<and> startswith s' p)"
  by (cases s) (auto simp: startswith_def)

lemma replace_prefix: "old \<noteq> [] \<Longrightarrow> replace (old @ s) old new = new @ replace s old new"
  by (cases old) (simp_all add: startswith_def)

lemma replace_absent: "old \<noteq> [] \<Longrightarrow> \<not> contains s old \<Longrightarrow> replace s old new = s"
  by (induction s) auto

lemma replace_leading:
  "\<forall>c\<in>set ws. c \<noteq> d \<Longrightarrow> replace (ws @ s) (d # old) new = ws @ replace s (d # old) new"
  by (induction ws) (simp_all add: startswith_Cons)

lemma strip_all_space: "\<forall>c\<in>set s. isspace c \<Longrightarrow> strip s = []"
  by (auto simp: strip_def dest: set_dropWhileD)

lemma strip_eq_Nil: "(strip s = []) = (\<forall>c\<in>set s. isspace c)"
proof
  assume "strip s = []"
  then have "\<forall>c\<in>set (dropWhile isspace s). isspace c"
    by (simp add: strip_def dropWhile_eq_Nil_conv)
  then have "dropWhile isspace s = []"
    using hd_dropWhile [of isspace s] by (cases "dropWhile isspace s") auto
  then show "\<forall>c\<in>set s. isspace c" by (simp add: dropWhile_eq_Nil_conv)
qed (rule strip_all_space)

lemma strip_leading: "\<forall>c\<in>set ws. isspace c \<Longrightarrow> strip (ws @ s) = strip s"
  by (simp add: strip_def dropWhile_append2)

lemma strip_core:
  assumes "a \<noteq> []" "\<not> isspace (hd a)" "\<not> isspace (last a)" "\<forall>c\<in>set ws. isspace c"
  shows "strip (a @ ws) = a"
proof -
  from assms(1,2) have 1: "dropWhile isspace (a @ ws) = a @ ws"
    by (cases a) simp_all
  from assms(1,3) have 2: "dropWhile isspace (rev a) = rev a"
    by (cases a rule: rev_cases) simp_all
  from assms(4) have "\<And>x. x \<in> set (rev ws) \<Longrightarrow> isspace x" by simp
  then have "dropWhile isspace (rev ws @ rev a) = dropWhile isspace (rev a)"
    by (rule dropWhile_append2)
  with 1 2 show ?thesis by (simp add: strip_def)
qed

lemma strip_hd: "strip s \<noteq> [] \<Longrightarrow> \<not> isspace (hd (strip s))"
proof -
  assume ne: "strip s \<noteq> []"
  define d where "d = dropWhile isspace s"
  define e where "e = dropWhile isspace (rev d)"
  have s: "strip s = rev e" by (simp add: strip_def d_def e_def)
  with ne have "e \<noteq> []" by simp
  then have "d \<noteq> []" by (auto simp: e_def)
  then have hd: "\<not> isspace (hd d)" unfolding d_def by (rule hd_dropWhile)
  obtain k where "rev d = k @ e" unfolding e_def
    by (metis takeWhile_dropWhile_id)
  then have "d = rev e @ rev k" by (metis rev_append rev_rev_ident)
  with \<open>e \<noteq> []\<close> have "hd d = hd (rev e)" by simp
  with hd s show ?thesis by simp
qed

lemma strip_last: "strip s \<noteq> [] \<Longrightarrow> \<not> isspace (last (strip s))"
proof -
  assume ne: "strip s \<noteq> []"
  define e where "e = dropWhile isspace (rev (dropWhile isspace s))"
  have s: "strip s = rev e" by (simp add: strip_def e_def)
  with ne have "e \<noteq> []" by simp
  then have "\<not> isspace (hd e)" unfolding e_def by (rule hd_dropWhile)
  with s \<open>e \<noteq> []\<close> show ?thesis by (simp add: last_rev)
qed

lemma strip_decomp:
  "\<exists>ws1 ws2. s = ws1 @ strip s @ ws2 \<and> (\<forall>c\<in>set ws1. isspace c) \<and> (\<forall>c\<in>set ws2. isspace c)"
proof -
  define d where "d = dropWhile isspace s"
  define k where "k = takeWhile isspace (rev d)"
  have 1: "s = takeWhile isspace s @ d" by (simp add: d_def)
  have "rev d = k @ dropWhile isspace (rev d)" by (simp add: k_def)
  then have "rev (rev d) = rev (k @ dropWhile isspace (rev d))" by simp
  then have 2: "d = strip s @ rev k" by (simp add: strip_def d_def)
  have 3: "\<forall>c\<in>set (takeWhile isspace s). isspace c" by (auto dest: set_takeWhileD)
  have 4: "\<forall>c\<in>set (rev k). isspace c" by (auto simp: k_def dest: set_takeWhileD)
  from 1 2 have "s = takeWhile isspace s @ strip s @ rev k" by simp
  with 3 4 show ?thesis by blast
qed

section \<open>Facts about the parser\<close>

lemma startswith_same_second:
  "startswith s (a # b # p) \<Longrightarrow> startswith s (a' # b' # q) \<Longrightarrow> b = b'"
  by (auto simp: startswith_Cons split: list.splits)

lemma parse_command_prefix:
  assumes "(P, kind) \<in> set command_prefixes" and "startswith (lower (strip x)) P"
  shows "parse_chat_command x = (kind, Some (strip (replace (lower (strip x)) P '''')))"
  using assms
  by (auto simp: command_prefixes_def parse_chat_command_def Let_def
      dest: startswith_same_second)

lemma parse_general:
  assumes "\<forall>P\<in>set (map fst command_prefixes @ [''/help'']). \<not> startswith (lower (strip x)) P"
  shows "parse_chat_command x = (''general'', Some (lower (strip x)))"
  using assms by (simp add: command_prefixes_def parse_chat_command_def Let_def)

lemma parse_help:
  assumes "startswith (lower (strip x)) ''/help''"
  shows "parse_chat_command x = (''help'', None)"
  using assms
  by (auto simp: parse_chat_command_def Let_def dest: startswith_same_second)

lemma lower_prefix: "(P, kind) \<in> set command_prefixes \<Longrightarrow> lower P = P"
  by (auto simp: command_prefixes_def; code_simp)

lemma strip_idem: "strip (strip s) = strip s"
proof (cases "strip s = []")
  case True
  moreover have "strip [] = []" by (simp add: strip_def)
  ultimately show ?thesis by simp
next
  case False
  then show ?thesis
    using strip_core [of "strip s" "[]"] strip_hd [of s] strip_last [of s] by simp
qed

lemma slash_not_space: "\<not> isspace (CHR ''/'')"
  by (simp add: isspace_def)

lemma parse_prefix_in_text:
  assumes mem: "(P, kind) \<in> set command_prefixes" and lp: "lower p = P"
    and w1: "strip ws1 = []" and w2: "strip ws2 = []" and ne: "strip arg \<noteq> []"
  shows "parse_chat_command (ws1 @ p @ arg @ ws2)
      = (kind, Some (strip (replace (lower (strip arg)) P [])))"
proof -
  obtain v1 v2 where arg: "arg = v1 @ strip arg @ v2"
    and v1: "\<forall>c\<in>set v1. isspace c" and v2: "\<forall>c\<in>set v2. isspace c"
    using strip_decomp [of arg] by blast
  define core where "core = strip arg"
  from mem obtain P' where P: "P = CHR ''/'' # P'"
    by (auto simp: command_prefixes_def)
  then have Pne: "P \<noteq> []" by simp
  from lp P obtain c p' where p: "p = c # p'" and c: "lower_char c = CHR ''/''"
    by (cases p) (auto simp: lower_def)
  have "isspace c = isspace (lower_char c)" by simp
  with c have hd: "\<not> isspace c" by (simp add: slash_not_space)
  from w1 w2 v2 have sp1: "\<forall>c\<in>set ws1. isspace c" and sp2: "\<forall>c\<in>set (v2 @ ws2). isspace c"
    by (auto simp: strip_eq_Nil)
  have "strip ((p @ v1 @ core) @ v2 @ ws2) = p @ v1 @ core"
    using ne strip_last [of arg] sp2 hd
    by (intro strip_core) (simp_all add: p core_def)
  moreover have "ws1 @ p @ arg @ ws2 = ws1 @ (p @ v1 @ core) @ v2 @ ws2"
    using arg by (simp add: core_def)
  ultimately have s: "strip (ws1 @ p @ arg @ ws2) = p @ v1 @ core"
    using strip_leading [OF sp1] by simp
  then have t: "lower (strip (ws1 @ p @ arg @ ws2)) = P @ lower v1 @ lower core"
    by (simp add: lp)
  have lws': "\<forall>c\<in>set (lower v1). isspace c"
    using v1 by (auto simp: lower_def)
  then have lws: "\<forall>c\<in>set (lower v1). c \<noteq> CHR ''/''"
    using slash_not_space by auto
  have "parse_chat_command (ws1 @ p @ arg @ ws2)
      = (kind, Some (strip (replace (P @ lower v1 @ lower core) P [])))"
    using parse_command_prefix [OF mem, of "ws1 @ p @ arg @ ws2"] by (simp add: t)
  also have "replace (P @ lower v1 @ lower core) P [] = replace (lower v1 @ lower core) P []"
    by (simp add: replace_prefix [OF Pne])
  also have "\<dots> = lower v1 @ replace (lower core) P []"
    unfolding P using lws by (rule replace_leading)
  also have "strip (lower v1 @ replace (lower core) P []) = strip (replace (lower core) P [])"
    using lws' by (rule strip_leading)
  finally show ?thesis by (simp add: core_def)
qed

lemma parse_bare:
  assumes "t \<in> {''/curriculum'', ''/socratic'', ''/quiz'', ''/project''}"
    and "lower (strip x) = t"
  shows "parse_chat_command x = (''general'', Some t)"
  using assms by (auto simp: parse_chat_command_def Let_def startswith_def)

lemma strip_prefix_blank:
  assumes "(P, kind) \<in> set command_prefixes" and "strip arg = []"
  shows "strip (P @ arg) = butlast P" and "strip (butlast P @ arg) = butlast P"
proof -
  from assms(2) have ws: "\<forall>c\<in>set (CHR '' '' # arg). isspace c" "\<forall>c\<in>set arg. isspace c"
    by (simp_all add: strip_eq_Nil isspace_def)
  from assms(1) have P: "P = butlast P @ '' ''" and ne: "butlast P \<noteq> []"
    and h: "\<not> isspace (hd (butlast P))" and l: "\<not> isspace (last (butlast P))"
    by (auto simp: command_prefixes_def isspace_def)
  have "strip (butlast P @ CHR '' '' # arg) = butlast P"
    using ne h l ws(1) by (rule strip_core)
  then show "strip (P @ arg) = butlast P"
    by (metis P append.assoc append_Cons append_Nil)
  show "strip (butlast P @ arg) = butlast P"
    using ne h l ws(2) by (rule strip_core)
qed

lemma bare_prefix:
  assumes "(P, kind) \<in> set command_prefixes"
  shows "butlast P \<in> {''/curriculum'', ''/socratic'', ''/quiz'', ''/project''}"
    and "lower (butlast P) = butlast P"
  using assms by (auto simp: command_prefixes_def; code_simp)+

lemma respond_general:
  "fst (parse_chat_command x) = ''general'' \<Longrightarrow> response_text gen x w = general_reply gen x w"
  by (cases "parse_chat_command x") (simp add: response_text_def respond_def)

section \<open>Facts about the generators and the handler\<close>

lemma generate_content_sent [simp]: "sent (snd (generate_content gen p w)) = sent w"
  by (simp add: generate_content_def)

lemma generate_curriculum_eq:
  "generate_curriculum gen topic w =
     (Inr (case gen (length (prompts w)) (curriculum_prompt topic) of
             Inr resp \<Rightarrow> resp
           | Inl (Exception e) \<Rightarrow> codes ''Error generating curriculum: '' @ e),
      w\<lparr>prompts := prompts w @ [curriculum_prompt topic]\<rparr>)"
  by (simp add: generate_curriculum_def generate_content_def split: sum.split exn.split)

lemma generate_socratic_questions_eq:
  "generate_socratic_questions gen concept w =
     (Inr (case gen (length (prompts w)) (socratic_prompt concept) of
             Inr resp \<Rightarrow> resp
           | Inl (Exception e) \<Rightarrow> codes ''Error generating Socratic questions: '' @ e),
      w\<lparr>prompts := prompts w @ [socratic_prompt concept]\<rparr>)"
  by (simp add: generate_socratic_questions_def generate_content_def split: sum.split exn.split)

lemma generate_quiz_eq:
  "generate_quiz gen topic w =
     (Inr (case gen (length (prompts w)) (quiz_prompt topic) of
             Inr resp \<Rightarrow> resp
           | Inl (Exception e) \<Rightarrow> codes ''Error generating quiz: '' @ e),
      w\<lparr>prompts := prompts w @ [quiz_prompt topic]\<rparr>)"
  by (simp add: generate_quiz_def generate_content_def split: sum.split exn.split)

lemma generate_project_eq:
  "generate_project gen topic w =
     (Inr (case gen (length (prompts w)) (project_prompt topic) of
             Inr resp \<Rightarrow> resp
           | Inl (Exception e) \<Rightarrow> codes ''Error generating project: '' @ e),
      w\<lparr>prompts := prompts w @ [project_prompt topic]\<rparr>)"
  by (simp add: generate_project_def generate_content_def split: sum.split exn.split)

lemma general_reply_eq:
  "general_reply gen x w =
     (Inr (case gen (length (prompts w)) (general_prompt (codes x)) of
             Inr resp \<Rightarrow> resp
           | Inl e \<Rightarrow> apology),
      w\<lparr>prompts := prompts w @ [general_prompt (codes x)]\<rparr>)"
  by (simp add: general_reply_def generate_content_def split: sum.split)

lemmas reply_eqs = generate_curriculum_eq generate_socratic_questions_eq generate_quiz_eq
  generate_project_eq general_reply_eq

lemma respond_returns:
  "\<exists>r w'. respond gen x parsed w = (Inr r, w') \<and> sent w' = sent w"
  by (cases parsed) (simp add: respond_def reply_eqs)

lemma response_text_returns:
  "\<exists>r w'. response_text gen x w = (Inr r, w') \<and> sent w' = sent w"
  unfolding response_text_def by (rule respond_returns)

lemma handle_item_text:
  "\<exists>r w'. response_text gen x w = (Inr r, w') \<and> sent w' = sent w
     \<and> handle_item gen (TextContent x) w
         = (None, w'\<lparr>sent := sent w @ [ChatMessage [TextContent r]]\<rparr>)"
  using response_text_returns [of gen x w]
  by (auto simp: send_def create_text_chat_def)

lemma handle_item_sent:
  "\<exists>c. handle_item gen item w = (None, snd (handle_item gen item w))
     \<and> sent (snd (handle_item gen item w))
         = sent w @ (if item = OtherContent then [] else [ChatMessage c])"
proof (cases item)
  case (TextContent x)
  then show ?thesis using handle_item_text [of gen x w] by auto
qed (auto simp: send_def create_text_chat_def)

lemma handle_items_sent:
  "fst (handle_items gen items w) = None
   \<and> (\<exists>rest. sent (snd (handle_items gen items w)) = sent w @ rest
        \<and> length rest = length (filter (\<lambda>i. i \<noteq> OtherContent) items)
        \<and> (\<forall>m\<in>set rest. \<exists>c. m = ChatMessage c))"
proof (induction items arbitrary: w)
  case Nil
  then show ?case by simp
next
  case (Cons item items)
  obtain c where 1: "handle_item gen item w = (None, snd (handle_item gen item w))"
    and 2: "sent (snd (handle_item gen item w))
         = sent w @ (if item = OtherContent then [] else [ChatMessage c])"
    using handle_item_sent [of gen item w] by blast
  define w1 where "w1 = snd (handle_item gen item w)"
  from Cons.IH [of w1] obtain rest where 3: "fst (handle_items gen items w1) = None"
    and 4: "sent (snd (handle_items gen items w1)) = sent w1 @ rest"
    and 5: "length rest = length (filter (\<lambda>i. i \<noteq> OtherContent) items)"
    and 6: "\<forall>m\<in>set rest. \<exists>c. m = ChatMessage c"
    by blast
  have "handle_item gen item w = (None, w1)"
    using 1 by (simp add: w1_def)
  then have 7: "handle_items gen (item # items) w = handle_items gen items w1"
    by simp
  show ?case
  proof (intro conjI exI [of _ "(if item = OtherContent then [] else [ChatMessage c]) @ rest"])
    show "fst (handle_items gen (item # items) w) = None" using 3 7 by simp
    show "sent (snd (handle_items gen (item # items) w))
        = sent w @ (if item = OtherContent then [] else [ChatMessage c]) @ rest"
      using 2 4 7 by (simp add: w1_def)
    show "length ((if item = OtherContent then [] else [ChatMessage c]) @ rest)
        = length (filter (\<lambda>i. i \<noteq> OtherContent) (item # items))"
      using 5 by simp
    show "\<forall>m\<in>set ((if item = OtherContent then [] else [ChatMessage c]) @ rest). \<exists>c. m = ChatMessage c"
      using 6 by auto
  qed
qed


lemma help_tokens:
  "contains get_help_text (codes ''/curriculum'')"
  "contains get_help_text (codes ''/socratic'')"
  "contains get_help_text (codes ''/quiz'')"
  "contains get_help_text (codes ''/project'')"
  "contains get_help_text (codes ''/help'')"
  by (simp_all add: get_help_text_def codes_def startswith_def)


lemma replace_keeps_last:
  "old \<noteq> [] \<Longrightarrow> s \<noteq> [] \<Longrightarrow> last s \<noteq> last old \<Longrightarrow>
     replace s old new \<noteq> [] \<and> last (replace s old new) = last s"
proof (induction s old new rule: replace.induct)
  case (1 old new)
  then show ?case by simp
next
  case (2 c cs old new)
  note old = "2.prems"(1) and last = "2.prems"(3)
  show ?case
  proof (cases "startswith (c # cs) old")
    case True
    define rest where "rest = drop (length old) (c # cs)"
    from True have split: "c # cs = old @ rest"
      unfolding startswith_def rest_def by (metis append_take_drop_id)
    with last have ne: "rest \<noteq> []" by auto
    with split have l: "last rest = last (c # cs)" by (metis last_append)
    from "2.IH"(2) [OF old True old] ne l last
    have "replace rest old new \<noteq> [] \<and> last (replace rest old new) = last rest"
      by (simp add: rest_def)
    with True old l show ?thesis by (simp add: rest_def)
  next
    case False
    show ?thesis
    proof (cases "cs = []")
      case True
      with False old show ?thesis by simp
    next
      case ne: False
      with last have "last cs \<noteq> last old" by simp
      from "2.IH"(3) [OF old False old ne this] False old ne show ?thesis by simp
    qed
  qed
qed

lemma parsed_argument_nonempty:
  assumes mem: "(P, kind) \<in> set command_prefixes" and st: "startswith (lower (strip x)) P"
  shows "strip (replace (lower (strip x)) P '''') \<noteq> []"
proof -
  define t where "t = lower (strip x)"
  from mem have P: "P \<noteq> []" "last P = CHR '' ''"
    by (auto simp: command_prefixes_def)
  from st P(1) have tne: "t \<noteq> []" by (auto simp: t_def startswith_def)
  then have sne: "strip x \<noteq> []" by (simp add: t_def lower_def)
  then have "\<not> isspace (last (strip x))" by (rule strip_last)
  with sne have lt: "\<not> isspace (last t)" by (simp add: t_def lower_def last_map)
  have sp: "isspace (CHR '' '')" by (simp add: isspace_def)
  with lt P(2) have "last t \<noteq> last P" by auto
  from replace_keeps_last [OF P(1) tne this, of "''''"]
  have r: "replace t P '''' \<noteq> []" "last (replace t P '''') = last t" by simp_all
  from r(1) have "last (replace t P '''') \<in> set (replace t P '''')" by (rule last_in_set)
  with r(2) lt have "\<not> (\<forall>c\<in>set (replace t P ''''). isspace c)" by auto
  then show ?thesis by (simp add: strip_eq_Nil t_def)
qed


section \<open>The parser's results\<close>

text \<open>
  C1 (amended). Matching is done on the trimmed, lower-cased text, and the argument is
  taken from that same text, so it is lower-cased too. For each of the four prefixes
  \<open>P\<close> that carry an argument:
  \<^item> every text whose trimmed, lower-cased form is \<open>P\<close> followed by a rest in which \<open>P\<close>
    does not occur is parsed as \<open>P\<close>'s command type with that rest, trimmed, as content;
  \<^item> so a text made of white space, the prefix in any letter case, an \<open>arg\<close> that is not
    white space only and in whose trimmed, lower-cased form \<open>P\<close> does not occur, and white
    space, is parsed as \<open>P\<close>'s command type with \<open>arg\<close> trimmed and lower-cased as
    content;
  \<^item> in particular \<open>P + arg\<close> is, for such an \<open>arg\<close>.
\<close>

theorem parse_prefix_argument:
  assumes "(P, kind) \<in> set command_prefixes"
  shows "(\<forall>x a. lower (strip x) = P @ a \<longrightarrow> \<not> contains a P \<longrightarrow>
            parse_chat_command x = (kind, Some (strip a)))
       \<and> (\<forall>ws1 p arg ws2. strip ws1 = [] \<longrightarrow> lower p = P \<longrightarrow> strip arg \<noteq> [] \<longrightarrow>
            strip ws2 = [] \<longrightarrow> \<not> contains (lower (strip arg)) P \<longrightarrow>
            parse_chat_command (ws1 @ p @ arg @ ws2) = (kind, Some (lower (strip arg))))
       \<and> (\<forall>arg. strip arg \<noteq> [] \<longrightarrow> \<not> contains (lower (strip arg)) P \<longrightarrow>
            parse_chat_command (P @ arg) = (kind, Some (lower (strip arg))))"
proof -
  have Pne: "P \<noteq> []" using assms by (auto simp: command_prefixes_def)
  have lowP: "lower P = P" using assms by (rule lower_prefix)
  have empty: "strip [] = []" by (simp add: strip_def)
  have idem: "strip (lower (strip arg)) = lower (strip arg)" for arg
    by (simp add: strip_lower strip_idem)
  have A: "parse_chat_command x = (kind, Some (strip a))"
    if "lower (strip x) = P @ a" and "\<not> contains a P" for x a
  proof -
    have "startswith (lower (strip x)) P" using that(1) by simp
    then have "parse_chat_command x = (kind, Some (strip (replace (P @ a) P [])))"
      using parse_command_prefix [OF assms, of x] that(1) by simp
    moreover have "replace (P @ a) P [] = replace a P []"
      by (simp add: replace_prefix [OF Pne])
    moreover have "replace a P [] = a"
      using Pne that(2) by (rule replace_absent)
    ultimately show ?thesis by simp
  qed
  have B: "parse_chat_command (ws1 @ p @ arg @ ws2) = (kind, Some (lower (strip arg)))"
    if "strip ws1 = []" "lower p = P" "strip arg \<noteq> []" "strip ws2 = []"
      "\<not> contains (lower (strip arg)) P" for ws1 p arg ws2
  proof -
    have "parse_chat_command (ws1 @ p @ arg @ ws2)
        = (kind, Some (strip (replace (lower (strip arg)) P [])))"
      using assms that(2,1,4,3) by (rule parse_prefix_in_text)
    moreover have "replace (lower (strip arg)) P [] = lower (strip arg)"
      using Pne that(5) by (rule replace_absent)
    ultimately show ?thesis by (simp add: idem)
  qed
  have C: "parse_chat_command (P @ arg) = (kind, Some (lower (strip arg)))"
    if "strip arg \<noteq> []" "\<not> contains (lower (strip arg)) P" for arg
    using B [OF empty lowP that(1) empty that(2)] by simp
  from A B C show ?thesis by blast
qed

text \<open>
  C1, at \<open>"  /QUIZ   Python Basics  "\<close>: the prefix matches in upper case and after
  trimming, and the content is \<open>python basics\<close>.
\<close>

theorem parse_prefix_argument_witness:
  "lower (strip ''  /QUIZ   Python Basics  '') = ''/quiz '' @ ''  python basics''
   \<and> \<not> contains ''  python basics'' ''/quiz ''
   \<and> strip ''  '' = [] \<and> lower ''/QUIZ '' = ''/quiz '' \<and> strip ''  Python Basics'' \<noteq> []
   \<and> \<not> contains (lower (strip ''  Python Basics'')) ''/quiz ''
   \<and> parse_chat_command ''  /QUIZ   Python Basics  '' = (''quiz'', Some ''python basics'')
   \<and> parse_chat_command (''  '' @ ''/QUIZ '' @ ''  Python Basics'' @ ''  '')
       = (''quiz'', Some ''python basics'')
   \<and> parse_chat_command (''/quiz '' @ ''  Python Basics'') = (''quiz'', Some ''python basics'')"
proof -
  have mem: "(''/quiz '', ''quiz'') \<in> set command_prefixes"
    by (simp add: command_prefixes_def)
  have 1: "lower (strip ''  /QUIZ   Python Basics  '') = ''/quiz '' @ ''  python basics''"
    by code_simp
  have 2: "\<not> contains ''  python basics'' ''/quiz ''" by code_simp
  have 3: "strip ''  '' = []" by code_simp
  have 4: "lower ''/QUIZ '' = ''/quiz ''" by code_simp
  have 5: "strip ''  Python Basics'' \<noteq> []" by code_simp
  have 6: "\<not> contains (lower (strip ''  Python Basics'')) ''/quiz ''" by code_simp
  have 7: "strip ''  python basics'' = ''python basics''" by code_simp
  have 8: "lower (strip ''  Python Basics'') = ''python basics''" by code_simp
  note inst = parse_prefix_argument [OF mem]
  from inst 1 2 have a: "parse_chat_command ''  /QUIZ   Python Basics  ''
      = (''quiz'', Some (strip ''  python basics''))"
    by blast
  from inst 3 4 5 6 have b: "parse_chat_command (''  '' @ ''/QUIZ '' @ ''  Python Basics'' @ ''  '')
      = (''quiz'', Some (lower (strip ''  Python Basics'')))"
    by blast
  from inst 5 6 have c: "parse_chat_command (''/quiz '' @ ''  Python Basics'')
      = (''quiz'', Some (lower (strip ''  Python Basics'')))"
    by blast
  from a b c 1 2 3 4 5 6 show ?thesis unfolding 7 8 by blast
qed

text \<open>
  C1 as stated fails: for \<open>/quiz Python\<close> the content is \<open>python\<close>, not the trimmed
  argument \<open>Python\<close>.
\<close>

theorem parse_prefix_argument_counterexample:
  "parse_chat_command (''/quiz '' @ ''Python'') = (''quiz'', Some ''python'')
   \<and> parse_chat_command (''/quiz '' @ ''Python'') \<noteq> (''quiz'', Some (strip ''Python''))"
  by code_simp

text \<open>
  C7. Whenever the trimmed, lower-cased input starts with one of the four prefixes \<open>P\<close>,
  the content is that trimmed, lower-cased input with every occurrence of \<open>P\<close> taken out
  (\<open>str.replace\<close>, not only the leading one), trimmed. So
  \<open>/quiz python /quiz basics\<close> gives \<open>python basics\<close>.
\<close>

theorem parse_removes_every_occurrence:
  "(\<forall>P kind x. (P, kind) \<in> set command_prefixes \<longrightarrow> startswith (lower (strip x)) P \<longrightarrow>
      parse_chat_command x = (kind, Some (strip (replace (lower (strip x)) P ''''))))
   \<and> parse_chat_command ''/quiz python /quiz basics'' = (''quiz'', Some ''python basics'')"
proof -
  have "parse_chat_command ''/quiz python /quiz basics'' = (''quiz'', Some ''python basics'')"
    by code_simp
  then show ?thesis using parse_command_prefix by blast
qed

text \<open>C7, at an input with three occurrences of \<open>/project\<close> in mixed case.\<close>

theorem parse_removes_every_occurrence_witness:
  "(''/project '', ''project'') \<in> set command_prefixes
   \<and> startswith (lower (strip '' /Project a /project Robot /PROJECT x '')) ''/project ''
   \<and> parse_chat_command '' /Project a /project Robot /PROJECT x '' = (''project'', Some ''a robot x'')"
proof -
  have mem: "(''/project '', ''project'') \<in> set command_prefixes"
    by (simp add: command_prefixes_def)
  have st: "startswith (lower (strip '' /Project a /project Robot /PROJECT x '')) ''/project ''"
    by code_simp
  have eq: "strip (replace (lower (strip '' /Project a /project Robot /PROJECT x '')) ''/project '' '''')
      = ''a robot x''"
    by code_simp
  from parse_removes_every_occurrence mem st
  have "parse_chat_command '' /Project a /project Robot /PROJECT x ''
      = (''project'', Some (strip (replace (lower (strip '' /Project a /project Robot /PROJECT x ''))
           ''/project '' '''')))"
    by blast
  with mem st eq show ?thesis by simp
qed

text \<open>
  C4 (amended). When the trimmed, lower-cased input starts with none of the five
  prefixes, \<open>parse_chat_command\<close> returns \<open>general\<close> with the trimmed, lower-cased text.
  The handler does not use that value: the reply is the general one, and the prompt it
  sends is built from the original text, unchanged.
\<close>

theorem parse_general_text:
  assumes "\<forall>P\<in>set (map fst command_prefixes @ [''/help'']). \<not> startswith (lower (strip x)) P"
  shows "parse_chat_command x = (''general'', Some (lower (strip x)))
       \<and> response_text gen x w = general_reply gen x w
       \<and> prompts (snd (response_text gen x w)) = prompts w @ [general_prompt (codes x)]"
proof -
  have 1: "parse_chat_command x = (''general'', Some (lower (strip x)))"
    using assms by (rule parse_general)
  then have 2: "response_text gen x w = general_reply gen x w"
    by (simp add: respond_general)
  have "prompts (snd (general_reply gen x w)) = prompts w @ [general_prompt (codes x)]"
    by (simp add: general_reply_eq)
  with 1 2 show ?thesis by simp
qed

text \<open>C4, at \<open>" Teach me Rust! "\<close> with a backend that answers \<open>ok\<close>.\<close>

theorem parse_general_text_witness:
  "parse_chat_command '' Teach me Rust! '' = (''general'', Some ''teach me rust!'')
   \<and> prompts (snd (response_text (\<lambda>n p. Inr (codes ''ok'')) '' Teach me Rust! ''
        \<lparr>sent = [], prompts = []\<rparr>))
     = [general_prompt (codes '' Teach me Rust! '')]"
proof -
  have eq: "lower (strip '' Teach me Rust! '') = ''teach me rust!''" by code_simp
  have "\<forall>P\<in>set (map fst command_prefixes @ [''/help'']).
      \<not> startswith (lower (strip '' Teach me Rust! '')) P"
    unfolding eq by (simp add: command_prefixes_def startswith_def)
  from parse_general_text [OF this, of "\<lambda>n p. Inr (codes ''ok'')" "\<lparr>sent = [], prompts = []\<rparr>"] eq
  show ?thesis by (simp add: general_reply_eq)
qed

text \<open>
  C4 as stated fails: for \<open>" Hello There "\<close> the parser returns \<open>hello there\<close>, not the
  original text.
\<close>

theorem parse_general_text_counterexample:
  "parse_chat_command '' Hello There '' = (''general'', Some ''hello there'')
   \<and> parse_chat_command '' Hello There '' \<noteq> (''general'', Some '' Hello There '')"
  by code_simp

text \<open>
  C6. A prefix followed by nothing but white space, and the bare command word (the prefix
  without its blank) followed by nothing but white space, are parsed as \<open>general\<close>, and
  the reply is the general one: no generator runs and no usage message is produced.
\<close>

theorem empty_argument_falls_through:
  assumes "(P, kind) \<in> set command_prefixes" and "strip arg = []"
  shows "parse_chat_command (P @ arg) = (''general'', Some (butlast P))
       \<and> response_text gen (P @ arg) w = general_reply gen (P @ arg) w
       \<and> parse_chat_command (butlast P @ arg) = (''general'', Some (butlast P))
       \<and> response_text gen (butlast P @ arg) w = general_reply gen (butlast P @ arg) w"
proof -
  have 1: "parse_chat_command (P @ arg) = (''general'', Some (butlast P))"
    using bare_prefix [OF assms(1)] strip_prefix_blank(1) [OF assms]
    by (intro parse_bare) simp_all
  have 2: "parse_chat_command (butlast P @ arg) = (''general'', Some (butlast P))"
    using bare_prefix [OF assms(1)] strip_prefix_blank(2) [OF assms]
    by (intro parse_bare) simp_all
  from 1 2 show ?thesis by (simp add: respond_general)
qed

text \<open>C6, at the bare \<open>/quiz\<close> with a failing backend: the reply is the general apology.\<close>

theorem empty_argument_falls_through_witness:
  "strip '''' = [] \<and> parse_chat_command ''/quiz'' = (''general'', Some ''/quiz'')
   \<and> parse_chat_command ''/quiz '' = (''general'', Some ''/quiz'')
   \<and> fst (response_text (\<lambda>n p. Inl (Exception (codes ''quota''))) ''/quiz''
        \<lparr>sent = [], prompts = []\<rparr>) = Inr apology"
proof -
  have mem: "(''/quiz '', ''quiz'') \<in> set command_prefixes"
    by (simp add: command_prefixes_def)
  have ws: "strip '''' = []" by (simp add: strip_def)
  from empty_argument_falls_through [OF mem ws, of "\<lambda>n p. Inl (Exception (codes ''quota''))"
      "\<lparr>sent = [], prompts = []\<rparr>"] ws
  show ?thesis by (simp add: general_reply_eq)
qed

text \<open>
  X1. Whenever the parser returns one of the four command types that carry an argument,
  the content is a non-empty string: the trimmed text ends in a character that is not
  white space, no occurrence of a prefix (which ends in a blank) covers it, so it
  survives the replacement. The test \<open>and content\<close> of the dispatch is therefore never
  what sends a command to the general branch.
\<close>

theorem command_content_never_empty:
  "fst (parse_chat_command x) \<in> {''curriculum'', ''socratic'', ''quiz'', ''project''} \<longrightarrow>
     truthy (snd (parse_chat_command x))"
proof -
  have ne: "strip (replace (lower (strip x)) P '''') \<noteq> []"
    if "(P, kind) \<in> set command_prefixes" and "startswith (lower (strip x)) P" for P kind
    using that by (rule parsed_argument_nonempty)
  show ?thesis
    using ne [of "''/curriculum ''" "''curriculum''"] ne [of "''/socratic ''" "''socratic''"]
      ne [of "''/quiz ''" "''quiz''"] ne [of "''/project ''" "''project''"]
    by (simp add: parse_chat_command_def Let_def command_prefixes_def)
qed

text \<open>X1, at \<open>"/quiz /quiz "\<close>, whose content is \<open>/quiz\<close>.\<close>

theorem command_content_never_empty_witness:
  "fst (parse_chat_command ''/quiz /quiz '') = ''quiz''
   \<and> truthy (snd (parse_chat_command ''/quiz /quiz ''))"
proof -
  have 1: "fst (parse_chat_command ''/quiz /quiz '') = ''quiz''" by code_simp
  with command_content_never_empty [of "''/quiz /quiz ''"] show ?thesis by simp
qed

section \<open>The responder\<close>

text \<open>
  C2. For every input text, every backend and every world, computing the response text
  returns a string: no exception of the backend leaves the responder. The handler as a
  whole ends without an exception as well. The empty text and a prefix with no argument
  are instances.
\<close>

theorem response_never_raises:
  "(\<exists>r w'. response_text gen x w = (Inr r, w')) \<and> fst (handle_message gen msg w) = None"
  using response_text_returns [of gen x w] handle_items_sent [of gen]
  by (auto simp: handle_message_def)

text \<open>C2, at the empty text and at \<open>"/quiz "\<close>, with a backend that always raises.\<close>

theorem response_never_raises_witness:
  "(\<exists>r w'. response_text (\<lambda>n p. Inl (Exception (codes ''quota''))) '''' \<lparr>sent = [], prompts = []\<rparr>
       = (Inr r, w'))
   \<and> (\<exists>r w'. response_text (\<lambda>n p. Inl (Exception (codes ''quota''))) ''/quiz '' \<lparr>sent = [], prompts = []\<rparr>
       = (Inr r, w'))
   \<and> fst (handle_message (\<lambda>n p. Inl (Exception (codes ''quota'')))
        \<lparr>msg_id = 7, content = [TextContent '''', TextContent ''/quiz '']\<rparr>
        \<lparr>sent = [], prompts = []\<rparr>) = None"
  using response_never_raises [of "\<lambda>n p. Inl (Exception (codes ''quota''))" "''''"
      "\<lparr>sent = [], prompts = []\<rparr>" "\<lparr>msg_id = 7, content = [TextContent '''', TextContent ''/quiz '']\<rparr>"]
    response_never_raises [of "\<lambda>n p. Inl (Exception (codes ''quota''))" "''/quiz ''"
      "\<lparr>sent = [], prompts = []\<rparr>" "\<lparr>msg_id = 7, content = [TextContent '''', TextContent ''/quiz '']\<rparr>"]
  by blast





text \<open>
  C5. The response to \<open>help\<close> is the help text for every backend and every world, and the
  world is returned as it was: no prompt goes to the backend. Every input whose trimmed,
  lower-cased form starts with \<open>/help\<close> gets it. The help text contains the five command
  words.
\<close>

theorem help_text_constant:
  "respond gen x (''help'', c) w = (Inr get_help_text, w)
   \<and> (startswith (lower (strip x)) ''/help'' \<longrightarrow> response_text gen x w = (Inr get_help_text, w))
   \<and> contains get_help_text (codes ''/curriculum'')
   \<and> contains get_help_text (codes ''/socratic'')
   \<and> contains get_help_text (codes ''/quiz'')
   \<and> contains get_help_text (codes ''/project'')
   \<and> contains get_help_text (codes ''/help'')"
  by (simp add: respond_def response_text_def parse_help help_tokens)

text \<open>C5, at \<open>"  /HELP "\<close> with a backend that always raises.\<close>

theorem help_text_constant_witness:
  "response_text (\<lambda>n p. Inl (Exception (codes ''offline''))) ''  /HELP '' \<lparr>sent = [], prompts = []\<rparr>
     = (Inr get_help_text, \<lparr>sent = [], prompts = []\<rparr>)"
proof -
  have "startswith (lower (strip ''  /HELP '')) ''/help''" by code_simp
  with help_text_constant [of "\<lambda>n p. Inl (Exception (codes ''offline''))" "''  /HELP ''" None
      "\<lparr>sent = [], prompts = []\<rparr>"]
  show ?thesis by blast
qed

section \<open>The handler\<close>

text \<open>
  C8. A text item is parsed once, the dispatch on that result returns one response text,
  and exactly one chat message carrying it is sent. A session start sends the fixed
  welcome and a session end the fixed farewell with the end-session marker; neither
  parses anything nor calls the backend. Any other item sends nothing. So a message sends
  its acknowledgement and one chat message for each start, text and end item.
\<close>

theorem one_response_per_text:
  "(\<exists>r w'. respond gen x (parse_chat_command x) w = (Inr r, w') \<and> sent w' = sent w
       \<and> handle_item gen (TextContent x) w
           = (None, w'\<lparr>sent := sent w @ [ChatMessage [TextContent r]]\<rparr>))
   \<and> handle_item gen StartSessionContent w
       = (None, w\<lparr>sent := sent w @ [ChatMessage [TextContent welcome_msg]]\<rparr>)
   \<and> handle_item gen EndSessionContent w
       = (None, w\<lparr>sent := sent w @ [ChatMessage [TextContent farewell_msg, EndSessionContent]]\<rparr>)
   \<and> handle_item gen OtherContent w = (None, w)
   \<and> length (sent (snd (handle_message gen msg w)))
       = length (sent w) + 1 + length (filter (\<lambda>i. i \<noteq> OtherContent) (content msg))"
proof -
  obtain rest where
    "sent (snd (handle_items gen (content msg) (send (ChatAcknowledgement (msg_id msg)) w)))
      = sent (send (ChatAcknowledgement (msg_id msg)) w) @ rest"
    and "length rest = length (filter (\<lambda>i. i \<noteq> OtherContent) (content msg))"
    using handle_items_sent [of gen "content msg" "send (ChatAcknowledgement (msg_id msg)) w"]
    by blast
  then have "length (sent (snd (handle_message gen msg w)))
       = length (sent w) + 1 + length (filter (\<lambda>i. i \<noteq> OtherContent) (content msg))"
    by (simp add: handle_message_def send_def)
  then show ?thesis
    using handle_item_text [of gen x w]
    by (simp add: response_text_def send_def create_text_chat_def)
qed

text \<open>C8, at a message with a start, a help request, an unknown item and an end.\<close>

theorem one_response_per_text_witness:
  "length (sent (snd (handle_message (\<lambda>n p. Inl (Exception (codes ''offline'')))
      \<lparr>msg_id = 7,
        content = [StartSessionContent, TextContent ''/help'', OtherContent, EndSessionContent]\<rparr>
      \<lparr>sent = [], prompts = []\<rparr>))) = 4"
  using one_response_per_text [of "\<lambda>n p. Inl (Exception (codes ''offline''))" "''/help''"
      "\<lparr>sent = [], prompts = []\<rparr>"
      "\<lparr>msg_id = 7,
        content = [StartSessionContent, TextContent ''/help'', OtherContent, EndSessionContent]\<rparr>"]
  by simp

text \<open>
  C10. Whatever the backend does and whatever the message holds, the first thing the
  handler sends is the acknowledgement of the message's identifier; everything sent after
  it is a chat message, so there is exactly one acknowledgement.
\<close>

theorem acknowledgement_first:
  "\<exists>rest. sent (snd (handle_message gen msg w)) = sent w @ ChatAcknowledgement (msg_id msg) # rest
     \<and> (\<forall>m\<in>set rest. \<exists>c. m = ChatMessage c)"
  using handle_items_sent [of gen "content msg" "send (ChatAcknowledgement (msg_id msg)) w"]
  by (auto simp: handle_message_def send_def)

text \<open>C10, at a message with one text item and a backend that always raises.\<close>

theorem acknowledgement_first_witness:
  "\<exists>rest. sent (snd (handle_message (\<lambda>n p. Inl (Exception (codes ''offline'')))
      \<lparr>msg_id = 7, content = [TextContent ''/quiz sets'']\<rparr> \<lparr>sent = [], prompts = []\<rparr>))
     = ChatAcknowledgement 7 # rest"
  using acknowledgement_first [of "\<lambda>n p. Inl (Exception (codes ''offline''))"
      "\<lparr>msg_id = 7, content = [TextContent ''/quiz sets'']\<rparr>" "\<lparr>sent = [], prompts = []\<rparr>"]
  by auto

end
